theory Spec2Isabelle
  imports Complex_Main
begin

section \<open>Python strings and values\<close>

text \<open>
  A Python \<open>str\<close> is a sequence of Unicode code points, so it is modelled as a list of
  code points: \<open>len\<close>, slicing, \<open>split\<close>, \<open>strip\<close> and \<open>join\<close> count and compare
  code points, as the interpreter does. \<open>lit\<close> embeds an ASCII literal of the source.
\<close>

type_synonym pystr = "nat list"

definition lit :: "string \<Rightarrow> pystr" where
  "lit cs = map of_char cs"

text \<open>\<open>str.isspace\<close> of one code point: the set that \<open>str.strip()\<close> removes.\<close>

definition isspace :: "nat \<Rightarrow> bool" where
  "isspace c \<longleftrightarrow>
     (0x09 \<le> c \<and> c \<le> 0x0D) \<or> (0x1C \<le> c \<and> c \<le> 0x20) \<or> c = 0x85 \<or> c = 0xA0 \<or>
     c = 0x1680 \<or> (0x2000 \<le> c \<and> c \<le> 0x200A) \<or> c = 0x2028 \<or> c = 0x2029 \<or>
     c = 0x202F \<or> c = 0x205F \<or> c = 0x3000"

text \<open>\<open>s.strip()\<close>: leading and trailing whitespace removed.\<close>

definition strip :: "pystr \<Rightarrow> pystr" where
  "strip s = rev (dropWhile isspace (rev (dropWhile isspace s)))"

text \<open>
  \<open>s.split(sep)\<close> for a separator of one code point (the source splits on \<open>","\<close> and on
  \<open>"\n"\<close> only): the pieces between the separators, empty pieces kept, so that the empty
  string gives one empty piece.
\<close>

fun split :: "nat \<Rightarrow> pystr \<Rightarrow> pystr list" where
  "split sep [] = [[]]"
| "split sep (c # cs) =
     (if c = sep then [] # split sep cs
      else (case split sep cs of p # ps \<Rightarrow> (c # p) # ps | [] \<Rightarrow> [[c]]))"

text \<open>\<open>sep.join(xs)\<close>.\<close>

fun join :: "pystr \<Rightarrow> pystr list \<Rightarrow> pystr" where
  "join sep [] = []"
| "join sep [x] = x"
| "join sep (x # y # ys) = x @ sep @ join sep (y # ys)"

text \<open>
  \<open>s.lower()\<close>. The ASCII letters are mapped as Python maps them. Of the code points
  outside ASCII only U+212A (Kelvin sign) has a lowercase form made of ASCII letters, and
  it is tabulated; every other one has a lowercase form with a code point outside ASCII
  and is kept as it is, which changes no comparison of the result with an ASCII key.
\<close>

definition lower_cp :: "nat \<Rightarrow> pystr" where
  "lower_cp c = (if 0x41 \<le> c \<and> c \<le> 0x5A then [c + 0x20]
                 else if c = 0x212A then [0x6B] else [c])"

definition lower :: "pystr \<Rightarrow> pystr" where
  "lower s = concat (map lower_cp s)"

text \<open>
  The values that blocks are made of and that \<open>json.loads\<close> returns: \<open>None\<close>, booleans,
  numbers, strings, lists and dictionaries. A dictionary is an association list in
  insertion order with distinct keys. A float is the real number it stands for: the
  program stores it, compares it with strings and tests whether it is zero, nothing else.
\<close>

datatype pyval =
    PNone
  | PBool bool
  | PInt int
  | PFloat real
  | PStr pystr
  | PList "pyval list"
  | PDict "(pystr \<times> pyval) list"

text \<open>Truth value testing, as \<open>if value:\<close> does it.\<close>

fun truthy :: "pyval \<Rightarrow> bool" where
  "truthy PNone = False"
| "truthy (PBool b) = b"
| "truthy (PInt i) = (i \<noteq> 0)"
| "truthy (PFloat r) = (r \<noteq> 0)"
| "truthy (PStr s) = (s \<noteq> [])"
| "truthy (PList xs) = (xs \<noteq> [])"
| "truthy (PDict kvs) = (kvs \<noteq> [])"

text \<open>An argument of type \<open>Optional[str]\<close>, and its truth value.\<close>

fun opt_val :: "pystr option \<Rightarrow> pyval" where
  "opt_val None = PNone"
| "opt_val (Some s) = PStr s"

definition present :: "pystr option \<Rightarrow> bool" where
  "present x = truthy (opt_val x)"

text \<open>\<open>d[k] = v\<close>: the value of an existing key is replaced, a new key goes last.\<close>

fun dict_set :: "(pystr \<times> pyval) list \<Rightarrow> pystr \<Rightarrow> pyval \<Rightarrow> (pystr \<times> pyval) list" where
  "dict_set [] k v = [(k, v)]"
| "dict_set ((k', v') # d) k v =
     (if k' = k then (k, v) # d else (k', v') # dict_set d k v)"

text \<open>\<open>d.get(k)\<close> of a dictionary, and the value stored under a key of a block.\<close>

fun dict_get :: "(pystr \<times> pyval) list \<Rightarrow> pystr \<Rightarrow> pyval" where
  "dict_get d k = (case map_of d k of None \<Rightarrow> PNone | Some v \<Rightarrow> v)"

fun lookup :: "pyval \<Rightarrow> pystr \<Rightarrow> pyval option" where
  "lookup (PDict d) k = map_of d k"
| "lookup _ k = None"

section \<open>BlockKitBuilder\<close>

definition header :: "pystr \<Rightarrow> pyval" where
  "header text =
     PDict [(lit ''type'', PStr (lit ''header'')),
            (lit ''text'', PDict [(lit ''type'', PStr (lit ''plain_text'')),
                                  (lit ''text'', PStr text)])]"

text \<open>\<open>section(text, text_type)\<close>; \<open>section_block\<close> is the call with the default
  \<open>"mrkdwn"\<close>. (\<open>section\<close> and \<open>context\<close> are keywords of Isabelle, hence the suffix.)\<close>

definition section_typed :: "pystr \<Rightarrow> pystr \<Rightarrow> pyval" where
  "section_typed text text_type =
     PDict [(lit ''type'', PStr (lit ''section'')),
            (lit ''text'', PDict [(lit ''type'', PStr text_type),
                                  (lit ''text'', PStr text)])]"

definition section_block :: "pystr \<Rightarrow> pyval" where
  "section_block text = section_typed text (lit ''mrkdwn'')"

definition divider :: "pyval" where
  "divider = PDict [(lit ''type'', PStr (lit ''divider''))]"

definition mrkdwn :: "pystr \<Rightarrow> pyval" where
  "mrkdwn text = PDict [(lit ''type'', PStr (lit ''mrkdwn'')), (lit ''text'', PStr text)]"

definition fields_section :: "pystr list \<Rightarrow> pyval" where
  "fields_section fields =
     PDict [(lit ''type'', PStr (lit ''section'')),
            (lit ''fields'', PList (map mrkdwn fields))]"

definition context_block :: "pystr list \<Rightarrow> pyval" where
  "context_block elements =
     PDict [(lit ''type'', PStr (lit ''context'')),
            (lit ''elements'', PList (map mrkdwn elements))]"

definition image :: "pystr \<Rightarrow> pystr \<Rightarrow> pystr option \<Rightarrow> pyval" where
  "image image_url alt_text title =
     (let block = [(lit ''type'', PStr (lit ''image'')),
                   (lit ''image_url'', PStr image_url),
                   (lit ''alt_text'', PStr alt_text)];
          block = (case title of
                     None \<Rightarrow> block
                   | Some t \<Rightarrow>
                       if t \<noteq> [] then
                         dict_set block (lit ''title'')
                           (PDict [(lit ''type'', PStr (lit ''plain_text'')),
                                   (lit ''text'', PStr t)])
                       else block)
      in PDict block)"

text \<open>
  \<open>button\<close> is called with the values of a decoded JSON object, which Python does not
  check against the annotations, so its arguments are arbitrary values.
\<close>

definition button :: "pyval \<Rightarrow> pyval \<Rightarrow> pyval \<Rightarrow> pyval \<Rightarrow> pyval \<Rightarrow> pyval" where
  "button text action_id val url style =
     (let element = [(lit ''type'', PStr (lit ''button'')),
                     (lit ''text'', PDict [(lit ''type'', PStr (lit ''plain_text'')),
                                           (lit ''text'', text)]),
                     (lit ''action_id'', action_id)];
          element = (if truthy val then dict_set element (lit ''value'') val else element);
          element = (if truthy url then dict_set element (lit ''url'') url else element);
          element = (if style \<in> set [PStr (lit ''primary''), PStr (lit ''danger'')]
                     then dict_set element (lit ''style'') style else element)
      in PDict element)"

definition actions :: "pyval list \<Rightarrow> pyval" where
  "actions elements =
     PDict [(lit ''type'', PStr (lit ''actions'')), (lit ''elements'', PList elements)]"

definition code_block :: "pystr \<Rightarrow> pystr option \<Rightarrow> pyval" where
  "code_block code language =
     (let formatted_code =
            lit ''```''
            @ (case language of
                 None \<Rightarrow> []
               | Some l \<Rightarrow> if l \<noteq> [] then l @ [10] else [])
            @ code @ lit ''```''
      in PDict [(lit ''type'', PStr (lit ''section'')),
                (lit ''text'', PDict [(lit ''type'', PStr (lit ''mrkdwn'')),
                                      (lit ''text'', PStr formatted_code)])])"

text \<open>
  \<open>select_menu\<close> gets the decoded \<open>select_options\<close>, any value. Iterating it and
  subscripting an option raise on the values that Python cannot iterate or subscript.
\<close>

datatype exn = JSONDecodeError pystr | TypeError | KeyError pystr | AttributeError

text \<open>\<open>for x in v\<close>: the elements of a list, the keys of a dictionary, the characters of a string.\<close>

fun py_iter :: "pyval \<Rightarrow> exn + pyval list" where
  "py_iter (PList xs) = Inr xs"
| "py_iter (PDict kvs) = Inr (map (\<lambda>kv. PStr (fst kv)) kvs)"
| "py_iter (PStr s) = Inr (map (\<lambda>c. PStr [c]) s)"
| "py_iter _ = Inl TypeError"

text \<open>\<open>v[k]\<close> for a string key \<open>k\<close>, and \<open>v.get(k)\<close>.\<close>

fun subscript :: "pyval \<Rightarrow> pystr \<Rightarrow> exn + pyval" where
  "subscript (PDict d) k = (case map_of d k of None \<Rightarrow> Inl (KeyError k) | Some v \<Rightarrow> Inr v)"
| "subscript _ k = Inl TypeError"

fun py_get :: "pyval \<Rightarrow> pystr \<Rightarrow> exn + pyval" where
  "py_get (PDict d) k = Inr (dict_get d k)"
| "py_get _ k = Inl AttributeError"

definition select_option :: "pyval \<Rightarrow> exn + pyval" where
  "select_option option =
     (case subscript option (lit ''text'') of
        Inl e \<Rightarrow> Inl e
      | Inr t \<Rightarrow>
          (case subscript option (lit ''value'') of
             Inl e \<Rightarrow> Inl e
           | Inr v \<Rightarrow>
               Inr (PDict [(lit ''text'', PDict [(lit ''type'', PStr (lit ''plain_text'')),
                                                 (lit ''text'', t)]),
                           (lit ''value'', v)])))"

fun select_options_loop :: "pyval list \<Rightarrow> exn + pyval list" where
  "select_options_loop [] = Inr []"
| "select_options_loop (option # rest) =
     (case select_option option of
        Inl e \<Rightarrow> Inl e
      | Inr x \<Rightarrow> (case select_options_loop rest of Inl e \<Rightarrow> Inl e | Inr xs \<Rightarrow> Inr (x # xs)))"

definition select_menu :: "pystr \<Rightarrow> pystr \<Rightarrow> pyval \<Rightarrow> exn + pyval" where
  "select_menu placeholder action_id options =
     (case py_iter options of
        Inl e \<Rightarrow> Inl e
      | Inr opts \<Rightarrow>
          (case select_options_loop opts of
             Inl e \<Rightarrow> Inl e
           | Inr xs \<Rightarrow>
               Inr (PDict [(lit ''type'', PStr (lit ''static_select'')),
                           (lit ''placeholder'', PDict [(lit ''type'', PStr (lit ''plain_text'')),
                                                        (lit ''text'', PStr placeholder)]),
                           (lit ''action_id'', PStr action_id),
                           (lit ''options'', PList xs)])))"

definition section_with_accessory :: "pystr \<Rightarrow> pyval \<Rightarrow> pyval" where
  "section_with_accessory text accessory =
     PDict [(lit ''type'', PStr (lit ''section'')),
            (lit ''text'', PDict [(lit ''type'', PStr (lit ''mrkdwn'')),
                                  (lit ''text'', PStr text)]),
            (lit ''accessory'', accessory)]"

section \<open>The message tools\<close>

text \<open>
  A tool builds its blocks and its fallback text and hands them to
  \<open>SlackClient().send_message(channel, fallback_text, thread_ts, blocks)\<close>. The model of a
  tool returns the arguments of that call, as a \<open>composed\<close> message, or the error that the
  tool returns instead of making the call: a message it returns itself, or an exception
  caught by its \<open>except Exception\<close>. Both reach the caller as the object
  \<open>{"error": message}\<close>. What the client does with the call is outside the model.
\<close>

record composed =
  msg_channel :: pystr
  msg_text :: pystr
  msg_thread_ts :: "pystr option"
  msg_blocks :: "pyval list"

datatype error = ErrorMessage pystr | Caught exn

text \<open>\<open>a or b\<close> on optional strings.\<close>

definition py_or :: "pystr option \<Rightarrow> pystr option \<Rightarrow> pystr option" where
  "py_or a b = (if present a then a else b)"

definition send_formatted_message ::
  "pystr \<Rightarrow> pystr option \<Rightarrow> pystr option \<Rightarrow> pystr option \<Rightarrow> pystr option \<Rightarrow> pystr option
     \<Rightarrow> error + composed" where
  "send_formatted_message channel title text fields_arg context thread_ts =
     (let blocks = [];
          blocks = (case title of
                      None \<Rightarrow> blocks
                    | Some t \<Rightarrow> if t \<noteq> [] then blocks @ [header t] else blocks);
          blocks = (case text of
                      None \<Rightarrow> blocks
                    | Some x \<Rightarrow> if x \<noteq> [] then blocks @ [section_block x] else blocks);
          blocks = (case fields_arg of
                      None \<Rightarrow> blocks
                    | Some f \<Rightarrow>
                        if f \<noteq> [] then
                          (let field_list = map strip (split 0x2C f)
                           in blocks @ [fields_section field_list])
                        else blocks);
          blocks = (case context of
                      None \<Rightarrow> blocks
                    | Some c \<Rightarrow> if c \<noteq> [] then blocks @ [context_block [c]] else blocks)
      in if blocks = [] then
           Inl (ErrorMessage
                  (lit ''At least one of title, text, fields, or context must be provided''))
         else
           (let fallback_text =
                  (case py_or (py_or title text) (Some (lit ''Formatted message'')) of
                     None \<Rightarrow> []
                   | Some s \<Rightarrow> s)
            in Inr \<lparr>msg_channel = channel, msg_text = fallback_text,
                     msg_thread_ts = thread_ts, msg_blocks = blocks\<rparr>))"

text \<open>
  The string literals of \<open>server.py\<close> that are not ASCII, code point by code point as the
  file has them: the four emoji of \<open>status_config\<close>, the marker that starts a line of
  \<open>send_list_message\<close>, and the mark that starts the header of \<open>send_announcement\<close>.
\<close>

definition emoji_success :: pystr where "emoji_success = [0xE2, 0x153, 0x2026]"
definition emoji_warning :: pystr where "emoji_warning = [0xE2, 0x161, 0xA0, 0xEF, 0xB8]"
definition emoji_error :: pystr where "emoji_error = [0xE2, 0x152]"
definition emoji_info :: pystr where "emoji_info = [0xE2, 0x201E, 0xB9, 0xEF, 0xB8]"
definition list_marker :: pystr where "list_marker = [0xE2, 0x20AC, 0xA2]"
definition announcement_mark :: pystr where "announcement_mark = [0xF0, 0x178, 0x201C, 0xA2]"

definition status_config :: "(pystr \<times> (pystr \<times> pystr) list) list" where
  "status_config =
     [(lit ''success'', [(lit ''emoji'', emoji_success), (lit ''color'', lit ''#28a745'')]),
      (lit ''warning'', [(lit ''emoji'', emoji_warning), (lit ''color'', lit ''#ffc107'')]),
      (lit ''error'', [(lit ''emoji'', emoji_error), (lit ''color'', lit ''#dc3545'')]),
      (lit ''info'', [(lit ''emoji'', emoji_info), (lit ''color'', lit ''#17a2b8'')])]"

definition send_notification_message ::
  "pystr \<Rightarrow> pystr \<Rightarrow> pystr \<Rightarrow> pystr \<Rightarrow> pystr option \<Rightarrow> pystr option \<Rightarrow> error + composed" where
  "send_notification_message channel status title description details thread_ts =
     (case map_of status_config (lit ''info'') of
        None \<Rightarrow> Inl (Caught (KeyError (lit ''info'')))
      | Some dflt \<Rightarrow>
          (let config = (case map_of status_config (lower status) of
                           None \<Rightarrow> dflt
                         | Some c \<Rightarrow> c)
           in case map_of config (lit ''emoji'') of
                None \<Rightarrow> Inl (Caught (KeyError (lit ''emoji'')))
              | Some emoji \<Rightarrow>
                  (let blocks =
                         [PDict [(lit ''type'', PStr (lit ''section'')),
                                 (lit ''text'',
                                  PDict [(lit ''type'', PStr (lit ''mrkdwn'')),
                                         (lit ''text'',
                                          PStr (emoji @ lit '' *'' @ title @ lit ''*'' @ [10]
                                                @ description))])]];
                       blocks = (case details of
                                   None \<Rightarrow> blocks
                                 | Some d \<Rightarrow>
                                     if d \<noteq> [] then blocks @ [divider] @ [context_block [d]]
                                     else blocks);
                       fallback_text = emoji @ lit '' '' @ title @ lit '': '' @ description
                   in Inr \<lparr>msg_channel = channel, msg_text = fallback_text,
                            msg_thread_ts = thread_ts, msg_blocks = blocks\<rparr>)))"

definition send_list_message ::
  "pystr \<Rightarrow> pystr \<Rightarrow> pystr \<Rightarrow> pystr option \<Rightarrow> pystr option \<Rightarrow> error + composed" where
  "send_list_message channel title items description thread_ts =
     (let blocks = [header title];
          blocks = (case description of
                      None \<Rightarrow> blocks
                    | Some d \<Rightarrow>
                        if d \<noteq> [] then blocks @ [section_block d] @ [divider] else blocks);
          item_list =
            (if 10 \<in> set items
             then map strip (filter (\<lambda>item. strip item \<noteq> []) (split 10 items))
             else map strip (filter (\<lambda>item. strip item \<noteq> []) (split 0x2C items)));
          formatted_items = join [10] (map (\<lambda>item. list_marker @ lit '' '' @ item) item_list);
          blocks = blocks @ [section_block formatted_items];
          fallback_text = title @ lit '': '' @ join (lit '', '') item_list
      in Inr \<lparr>msg_channel = channel, msg_text = fallback_text,
               msg_thread_ts = thread_ts, msg_blocks = blocks\<rparr>)"

text \<open>
  \<open>json.loads\<close> is a parameter of the two tools that decode an argument: it returns the
  decoded value, or the message of the \<open>JSONDecodeError\<close> it raises.
\<close>

definition button_of_config :: "pyval \<Rightarrow> exn + pyval" where
  "button_of_config btn_config =
     (case subscript btn_config (lit ''text'') of
        Inl e \<Rightarrow> Inl e
      | Inr text \<Rightarrow>
     (case subscript btn_config (lit ''action_id'') of
        Inl e \<Rightarrow> Inl e
      | Inr action_id \<Rightarrow>
     (case py_get btn_config (lit ''value'') of
        Inl e \<Rightarrow> Inl e
      | Inr val \<Rightarrow>
     (case py_get btn_config (lit ''url'') of
        Inl e \<Rightarrow> Inl e
      | Inr url \<Rightarrow>
     (case py_get btn_config (lit ''style'') of
        Inl e \<Rightarrow> Inl e
      | Inr style \<Rightarrow> Inr (button text action_id val url style))))))"

fun button_loop :: "pyval list \<Rightarrow> pyval list \<Rightarrow> exn + pyval list" where
  "button_loop [] button_elements = Inr button_elements"
| "button_loop (btn_config # rest) button_elements =
     (case button_of_config btn_config of
        Inl e \<Rightarrow> Inl e
      | Inr element \<Rightarrow> button_loop rest (button_elements @ [element]))"

definition send_interactive_message ::
  "(pystr \<Rightarrow> pystr + pyval) \<Rightarrow> pystr \<Rightarrow> pystr \<Rightarrow> pystr \<Rightarrow> pystr \<Rightarrow> pystr option
     \<Rightarrow> error + composed" where
  "send_interactive_message json_loads channel title description buttons thread_ts =
     (let blocks = [header title, section_block description]
      in case json_loads buttons of
           Inl m \<Rightarrow> Inl (Caught (JSONDecodeError m))
         | Inr button_configs \<Rightarrow>
             (case py_iter button_configs of
                Inl e \<Rightarrow> Inl (Caught e)
              | Inr configs \<Rightarrow>
                  (case button_loop configs [] of
                     Inl e \<Rightarrow> Inl (Caught e)
                   | Inr button_elements \<Rightarrow>
                       (let blocks = (if button_elements \<noteq> []
                                      then blocks @ [actions button_elements] else blocks);
                            fallback_text = title @ lit '': '' @ description
                        in Inr \<lparr>msg_channel = channel, msg_text = fallback_text,
                                 msg_thread_ts = thread_ts, msg_blocks = blocks\<rparr>))))"

definition send_code_snippet ::
  "pystr \<Rightarrow> pystr \<Rightarrow> pystr \<Rightarrow> pystr option \<Rightarrow> pystr option \<Rightarrow> pystr option \<Rightarrow> error + composed" where
  "send_code_snippet channel title code language description thread_ts =
     (let blocks = [header title];
          blocks = (case description of
                      None \<Rightarrow> blocks
                    | Some d \<Rightarrow> if d \<noteq> [] then blocks @ [section_block d] else blocks);
          blocks = blocks @ [code_block code language];
          fallback_text = title @ lit '': '' @ take 100 code
                          @ (if length code > 100 then lit ''...'' else [])
      in Inr \<lparr>msg_channel = channel, msg_text = fallback_text,
               msg_thread_ts = thread_ts, msg_blocks = blocks\<rparr>)"

definition send_form_message ::
  "(pystr \<Rightarrow> pystr + pyval) \<Rightarrow> pystr \<Rightarrow> pystr \<Rightarrow> pystr \<Rightarrow> pystr \<Rightarrow> pystr \<Rightarrow> pystr
     \<Rightarrow> pystr option \<Rightarrow> error + composed" where
  "send_form_message json_loads channel title description select_options select_placeholder
       select_action_id thread_ts =
     (let blocks = [header title, section_block description]
      in case json_loads select_options of
           Inl m \<Rightarrow> Inl (Caught (JSONDecodeError m))
         | Inr options \<Rightarrow>
             (case select_menu select_placeholder select_action_id options of
                Inl e \<Rightarrow> Inl (Caught e)
              | Inr menu \<Rightarrow>
                  (let blocks = blocks @ [section_with_accessory
                                            (lit ''Please make your selection:'') menu];
                       fallback_text = title @ lit '': '' @ description
                   in Inr \<lparr>msg_channel = channel, msg_text = fallback_text,
                            msg_thread_ts = thread_ts, msg_blocks = blocks\<rparr>)))"

text \<open>
  \<open>now\<close> is the value of \<open>datetime.now().strftime('%Y-%m-%d %H:%M')\<close> at the call.
\<close>

definition send_announcement ::
  "pystr \<Rightarrow> pystr \<Rightarrow> pystr \<Rightarrow> pystr \<Rightarrow> pystr option \<Rightarrow> pystr option \<Rightarrow> pystr option
     \<Rightarrow> error + composed" where
  "send_announcement now channel title message author timestamp thread_ts =
     (let blocks = [header (announcement_mark @ lit '' '' @ title), section_block message];
          context_elements = [];
          context_elements = (case author of
                                None \<Rightarrow> context_elements
                              | Some a \<Rightarrow>
                                  if a \<noteq> [] then context_elements @ [lit ''*By:* '' @ a]
                                  else context_elements);
          context_elements = (case timestamp of
                                None \<Rightarrow> context_elements @ [lit ''*Date:* '' @ now]
                              | Some t \<Rightarrow>
                                  if t \<noteq> [] then context_elements @ [lit ''*Date:* '' @ t]
                                  else context_elements @ [lit ''*Date:* '' @ now]);
          blocks = (if context_elements \<noteq> [] then blocks @ [context_block context_elements]
                    else blocks);
          fallback_text = announcement_mark @ lit '' '' @ title @ lit '': '' @ message
      in Inr \<lparr>msg_channel = channel, msg_text = fallback_text,
               msg_thread_ts = thread_ts, msg_blocks = blocks\<rparr>)"

section \<open>Reading a result\<close>

text \<open>The blocks of the message a tool hands over, if it hands one over.\<close>

definition blocks_of :: "error + composed \<Rightarrow> pyval list option" where
  "blocks_of r = (case r of Inl e \<Rightarrow> None | Inr m \<Rightarrow> Some (msg_blocks m))"

text \<open>An optional argument as the list of the values supplied: none, or the one non-empty string.\<close>

definition supplied :: "pystr option \<Rightarrow> pystr list" where
  "supplied x = (case x of None \<Rightarrow> [] | Some s \<Rightarrow> if s \<noteq> [] then [s] else [])"

text \<open>
  The status table in the spec's words: the status, lowercased, selects the emoji of its
  entry, and the emoji of \<open>info\<close> when it has no entry.
\<close>

definition status_emoji :: "pystr \<Rightarrow> pystr" where
  "status_emoji status =
     (if lower status = lit ''success'' then emoji_success
      else if lower status = lit ''warning'' then emoji_warning
      else if lower status = lit ''error'' then emoji_error
      else emoji_info)"

text \<open>
  A decoder for the examples: it is \<open>json.loads\<close> on the two arguments it is applied to,
  the empty array \<open>[]\<close> and the text \<open>not json\<close>, which is no JSON document.
\<close>

definition sample_loads :: "pystr \<Rightarrow> pystr + pyval" where
  "sample_loads s =
     (if s = lit ''[]'' then Inr (PList [])
      else Inl (lit ''Expecting value: line 1 column 1 (char 0)''))"

section \<open>Facts about strings, dictionaries and results\<close>

lemma lit_eq_iff [simp]: "lit a = lit b \<longleftrightarrow> a = b"
  unfolding lit_def by (simp add: inj_map_eq_map inj_of_char)

lemma split_not_Nil [simp]: "split sep s \<noteq> []"
  by (induction s) (auto split: list.splits)

lemma length_split: "length (split sep s) = Suc (count_list s sep)"
  by (induction s) (auto split: list.splits)

lemma split_pieces_subset: "p \<in> set (split sep s) \<Longrightarrow> set p \<subseteq> set s - {sep}"
proof (induction s arbitrary: p)
  case Nil
  then show ?case by simp
next
  case (Cons c cs)
  show ?case
  proof (cases "c = sep")
    case True
    with Cons show ?thesis by auto
  next
    case False
    obtain q qs where q: "split sep cs = q # qs"
      using split_not_Nil [of sep cs] by (cases "split sep cs") auto
    with Cons.prems False have "p = c # q \<or> p \<in> set qs" by auto
    then show ?thesis
    proof
      assume "p = c # q"
      moreover have "set q \<subseteq> set cs - {sep}" using Cons.IH [of q] q by simp
      ultimately show ?thesis using False by auto
    next
      assume "p \<in> set qs"
      then have "set p \<subseteq> set cs - {sep}" using Cons.IH [of p] q by simp
      then show ?thesis by auto
    qed
  qed
qed

lemma strip_all_space:
  assumes "\<forall>c\<in>set s. isspace c"
  shows "strip s = []"
  using assms by (auto simp add: strip_def dest: set_dropWhileD)

lemma supplied_simps [simp]:
  "supplied None = []" "supplied (Some []) = []" "s \<noteq> [] \<Longrightarrow> supplied (Some s) = [s]"
  by (simp_all add: supplied_def)

lemma present_simps [simp]:
  "present None = False" "present (Some s) = (s \<noteq> [])"
  by (simp_all add: present_def)

lemma supplied_Nil_iff: "supplied x = [] \<longleftrightarrow> \<not> present x"
  by (cases x) (simp_all add: supplied_def)

lemma blocks_of_simps [simp]:
  "blocks_of (Inl e) = None" "blocks_of (Inr m) = Some (msg_blocks m)"
  by (simp_all add: blocks_of_def)

section \<open>The tools in closed form\<close>

lemma formatted_message_closed:
  "send_formatted_message channel title text fields_arg context thread_ts =
     (let bs = map header (supplied title) @ map section_block (supplied text)
               @ map (\<lambda>f. fields_section (map strip (split 0x2C f))) (supplied fields_arg)
               @ map (\<lambda>c. context_block [c]) (supplied context)
      in if bs = [] then
           Inl (ErrorMessage
                  (lit ''At least one of title, text, fields, or context must be provided''))
         else Inr \<lparr>msg_channel = channel,
                    msg_text = (case supplied title @ supplied text of
                                  [] \<Rightarrow> lit ''Formatted message'' | s # _ \<Rightarrow> s),
                    msg_thread_ts = thread_ts, msg_blocks = bs\<rparr>)"
  unfolding send_formatted_message_def
  by (cases title; cases "text"; cases fields_arg; cases "context")
     (simp_all add: Let_def supplied_def py_or_def)

lemma status_config_lookup:
  "map_of status_config k =
     (if k = lit ''success''
        then Some [(lit ''emoji'', emoji_success), (lit ''color'', lit ''#28a745'')]
      else if k = lit ''warning''
        then Some [(lit ''emoji'', emoji_warning), (lit ''color'', lit ''#ffc107'')]
      else if k = lit ''error''
        then Some [(lit ''emoji'', emoji_error), (lit ''color'', lit ''#dc3545'')]
      else if k = lit ''info''
        then Some [(lit ''emoji'', emoji_info), (lit ''color'', lit ''#17a2b8'')]
      else None)"
  by (simp add: status_config_def)

lemma notification_closed:
  "send_notification_message channel status title description details thread_ts =
     Inr \<lparr>msg_channel = channel,
          msg_text = status_emoji status @ lit '' '' @ title @ lit '': '' @ description,
          msg_thread_ts = thread_ts,
          msg_blocks = section_block (status_emoji status @ lit '' *'' @ title @ lit ''*'' @ [10]
                                      @ description)
                       # concat (map (\<lambda>d. [divider, context_block [d]]) (supplied details))\<rparr>"
  unfolding send_notification_message_def status_config_lookup
  by (cases details)
     (simp_all add: Let_def status_emoji_def section_block_def section_typed_def supplied_def)

lemma lower_lit_unknown: "lower (lit ''unknown'') = lit ''unknown''"
  by (simp add: lower_def lower_cp_def lit_def)

lemma lower_lit_info: "lower (lit ''info'') = lit ''info''"
  by (simp add: lower_def lower_cp_def lit_def)

lemma list_message_closed:
  "send_list_message channel title items description thread_ts =
     (let item_list = map strip (filter (\<lambda>p. strip p \<noteq> [])
                                   (split (if 10 \<in> set items then 10 else 0x2C) items))
      in Inr \<lparr>msg_channel = channel,
               msg_text = title @ lit '': '' @ join (lit '', '') item_list,
               msg_thread_ts = thread_ts,
               msg_blocks = header title
                            # concat (map (\<lambda>d. [section_block d, divider]) (supplied description))
                            @ [section_block (join [10] (map (\<lambda>item. list_marker @ lit '' '' @ item)
                                                            item_list))]\<rparr>)"
  unfolding send_list_message_def
  by (cases description) (simp_all add: Let_def supplied_def)

lemma announcement_closed:
  "send_announcement now channel title message author timestamp thread_ts =
     Inr \<lparr>msg_channel = channel,
          msg_text = announcement_mark @ lit '' '' @ title @ lit '': '' @ message,
          msg_thread_ts = thread_ts,
          msg_blocks = [header (announcement_mark @ lit '' '' @ title), section_block message,
                        context_block (map (\<lambda>a. lit ''*By:* '' @ a) (supplied author)
                                       @ [lit ''*Date:* ''
                                          @ (case supplied timestamp of [] \<Rightarrow> now | t # _ \<Rightarrow> t)])]\<rparr>"
  unfolding send_announcement_def
  by (cases author; cases timestamp) (simp_all add: Let_def supplied_def)

lemma code_snippet_closed:
  "send_code_snippet channel title code language description thread_ts =
     Inr \<lparr>msg_channel = channel,
          msg_text = title @ lit '': '' @ take 100 code
                     @ (if length code > 100 then lit ''...'' else []),
          msg_thread_ts = thread_ts,
          msg_blocks = header title # map section_block (supplied description)
                       @ [code_block code language]\<rparr>"
  unfolding send_code_snippet_def
  by (cases description) (simp_all add: Let_def supplied_def)

lemma interactive_blocks:
  "send_interactive_message json_loads channel title description buttons thread_ts = Inr m
     \<Longrightarrow> \<exists>bs. msg_blocks m = header title # section_block description # bs"
  unfolding send_interactive_message_def
  by (auto simp add: Let_def split: sum.splits if_splits)

lemma form_blocks:
  "send_form_message json_loads channel title description select_options select_placeholder
       select_action_id thread_ts = Inr m
     \<Longrightarrow> \<exists>menu. msg_blocks m = [header title, section_block description,
                                  section_with_accessory (lit ''Please make your selection:'') menu]"
  unfolding send_form_message_def
  by (auto simp add: Let_def split: sum.splits if_splits)

lemma list_message_newline_example:
  "map strip (filter (\<lambda>p. strip p \<noteq> [])
       (split 10 (lit ''a'' @ [10] @ lit ''b, c'' @ [10] @ lit ''d'')))
     = [lit ''a'', lit ''b, c'', lit ''d'']"
  by (simp add: lit_def strip_def isspace_def)

section \<open>The claims\<close>

text \<open>
  C1. With title, text, fields and context all supplied (non-empty), \<open>send_formatted_message\<close>
  hands over exactly four blocks, in the order header of the title, section of the text,
  fields section of the fields split on comma with each piece trimmed, context of the
  context. With any non-empty subset supplied, it hands over exactly the blocks of the
  supplied arguments, in that same order.
\<close>

theorem formatted_message_blocks:
  "(t \<noteq> [] \<and> x \<noteq> [] \<and> f \<noteq> [] \<and> c \<noteq> [] \<longrightarrow>
      blocks_of (send_formatted_message channel (Some t) (Some x) (Some f) (Some c) thread_ts)
        = Some [header t, section_block x, fields_section (map strip (split 0x2C f)),
                context_block [c]])
   \<and> (present title \<or> present text \<or> present fields_arg \<or> present context \<longrightarrow>
      blocks_of (send_formatted_message channel title text fields_arg context thread_ts)
        = Some (map header (supplied title) @ map section_block (supplied text)
                @ map (\<lambda>f. fields_section (map strip (split 0x2C f))) (supplied fields_arg)
                @ map (\<lambda>c. context_block [c]) (supplied context)))"
  by (auto simp add: formatted_message_closed blocks_of_def Let_def supplied_Nil_iff)

theorem formatted_message_blocks_witness:
  "blocks_of (send_formatted_message (lit ''C1'') (Some (lit ''T'')) (Some (lit ''body''))
                (Some (lit ''a, b'')) (Some (lit ''ctx'')) None)
     = Some [header (lit ''T''), section_block (lit ''body''),
             fields_section [lit ''a'', lit ''b''], context_block [lit ''ctx'']]
   \<and> blocks_of (send_formatted_message (lit ''C1'') None (Some (lit ''body'')) None
                  (Some (lit ''ctx'')) None)
     = Some [section_block (lit ''body''), context_block [lit ''ctx'']]"
  using formatted_message_blocks [of "lit ''T''" "lit ''body''" "lit ''a, b''" "lit ''ctx''"
          "lit ''C1''" None None "Some (lit ''body'')" None "Some (lit ''ctx'')"]
  by (simp add: lit_def strip_def isspace_def supplied_def)

text \<open>
  C2. No tool hands over a message without blocks. \<open>send_formatted_message\<close> with none of
  title, text, fields and context supplied returns the error message "At least one of title,
  text, fields, or context must be provided", and a message it hands over has a block. The
  notification, list, code snippet and announcement tools always hand over a message with
  at least one block; the interactive and form tools do so whenever they succeed.
\<close>

theorem composers_nonempty:
  "(\<not> present title \<and> \<not> present text \<and> \<not> present fields_arg \<and> \<not> present context \<longrightarrow>
      send_formatted_message channel title text fields_arg context thread_ts
        = Inl (ErrorMessage
                 (lit ''At least one of title, text, fields, or context must be provided'')))
   \<and> (\<forall>m. send_formatted_message channel title text fields_arg context thread_ts = Inr m
          \<longrightarrow> msg_blocks m \<noteq> [])
   \<and> (\<exists>m. send_notification_message channel status title' description details thread_ts = Inr m
          \<and> msg_blocks m \<noteq> [])
   \<and> (\<exists>m. send_list_message channel title' items description' thread_ts = Inr m
          \<and> msg_blocks m \<noteq> [])
   \<and> (\<forall>m. send_interactive_message json_loads channel title' description buttons thread_ts = Inr m
          \<longrightarrow> msg_blocks m \<noteq> [])
   \<and> (\<exists>m. send_code_snippet channel title' code language description' thread_ts = Inr m
          \<and> msg_blocks m \<noteq> [])
   \<and> (\<forall>m. send_form_message json_loads channel title' description select_options
            select_placeholder select_action_id thread_ts = Inr m
          \<longrightarrow> msg_blocks m \<noteq> [])
   \<and> (\<exists>m. send_announcement now channel title' message author timestamp thread_ts = Inr m
          \<and> msg_blocks m \<noteq> [])"
proof (intro conjI)
  show "\<not> present title \<and> \<not> present text \<and> \<not> present fields_arg \<and> \<not> present context \<longrightarrow>
      send_formatted_message channel title text fields_arg context thread_ts
        = Inl (ErrorMessage
                 (lit ''At least one of title, text, fields, or context must be provided''))"
    by (simp add: formatted_message_closed Let_def supplied_Nil_iff)
  show "\<forall>m. send_formatted_message channel title text fields_arg context thread_ts = Inr m
          \<longrightarrow> msg_blocks m \<noteq> []"
    by (auto simp add: formatted_message_closed Let_def split: if_splits)
  show "\<exists>m. send_notification_message channel status title' description details thread_ts = Inr m
          \<and> msg_blocks m \<noteq> []"
    by (simp add: notification_closed)
  show "\<exists>m. send_list_message channel title' items description' thread_ts = Inr m
          \<and> msg_blocks m \<noteq> []"
    by (simp add: list_message_closed Let_def)
  show "\<forall>m. send_interactive_message json_loads channel title' description buttons thread_ts = Inr m
          \<longrightarrow> msg_blocks m \<noteq> []"
    using interactive_blocks by fastforce
  show "\<exists>m. send_code_snippet channel title' code language description' thread_ts = Inr m
          \<and> msg_blocks m \<noteq> []"
    by (simp add: code_snippet_closed)
  show "\<forall>m. send_form_message json_loads channel title' description select_options
            select_placeholder select_action_id thread_ts = Inr m
          \<longrightarrow> msg_blocks m \<noteq> []"
    using form_blocks by fastforce
  show "\<exists>m. send_announcement now channel title' message author timestamp thread_ts = Inr m
          \<and> msg_blocks m \<noteq> []"
    by (simp add: announcement_closed)
qed

theorem composers_nonempty_witness:
  "send_formatted_message (lit ''C1'') None (Some []) None None None
     = Inl (ErrorMessage (lit ''At least one of title, text, fields, or context must be provided''))
   \<and> (\<exists>m. send_formatted_message (lit ''C1'') (Some (lit ''T'')) None None None None = Inr m
          \<and> msg_blocks m \<noteq> [])
   \<and> (\<exists>m. send_interactive_message sample_loads (lit ''C1'') (lit ''T'') (lit ''D'') (lit ''[]'') None
            = Inr m \<and> msg_blocks m \<noteq> [])
   \<and> (\<exists>m. send_form_message sample_loads (lit ''C1'') (lit ''T'') (lit ''D'') (lit ''[]'')
            (lit ''Choose an option'') (lit ''form_select'') None = Inr m \<and> msg_blocks m \<noteq> [])"
proof -
  have f: "send_formatted_message (lit ''C1'') (Some (lit ''T'')) None None None None
             = Inr \<lparr>msg_channel = lit ''C1'', msg_text = lit ''T'', msg_thread_ts = None,
                    msg_blocks = [header (lit ''T'')]\<rparr>"
    by (simp add: send_formatted_message_def Let_def py_or_def lit_def)
  have i: "send_interactive_message sample_loads (lit ''C1'') (lit ''T'') (lit ''D'') (lit ''[]'') None
             = Inr \<lparr>msg_channel = lit ''C1'', msg_text = lit ''T: D'', msg_thread_ts = None,
                    msg_blocks = [header (lit ''T''), section_block (lit ''D'')]\<rparr>"
    by (simp add: send_interactive_message_def sample_loads_def Let_def lit_def)
  have s: "send_form_message sample_loads (lit ''C1'') (lit ''T'') (lit ''D'') (lit ''[]'')
              (lit ''Choose an option'') (lit ''form_select'') None
             = Inr \<lparr>msg_channel = lit ''C1'', msg_text = lit ''T: D'', msg_thread_ts = None,
                    msg_blocks = [header (lit ''T''), section_block (lit ''D''),
                      section_with_accessory (lit ''Please make your selection:'')
                        (PDict [(lit ''type'', PStr (lit ''static_select'')),
                           (lit ''placeholder'', PDict [(lit ''type'', PStr (lit ''plain_text'')),
                                                        (lit ''text'', PStr (lit ''Choose an option''))]),
                           (lit ''action_id'', PStr (lit ''form_select'')),
                           (lit ''options'', PList [])])]\<rparr>"
    by (simp add: send_form_message_def sample_loads_def select_menu_def Let_def lit_def)
  show ?thesis
    using composers_nonempty [of None "Some []" None None "lit ''C1''" None,
            where json_loads = sample_loads and title' = "lit ''T''" and description = "lit ''D''"
              and buttons = "lit ''[]''" and select_options = "lit ''[]''"
              and select_placeholder = "lit ''Choose an option''"
              and select_action_id = "lit ''form_select''"]
          composers_nonempty [of "Some (lit ''T'')" None None None "lit ''C1''" None]
          f i s
    by simp
qed

text \<open>
  C3, as amended. For every code string, \<open>code_block\<close> gives the section block whose mrkdwn
  text is the fence, the language, a newline, the code and the fence when the language is
  given and not empty, and the fence, the code and the fence, with no newline, when the
  language is absent or the empty string. So \<open>code_block("echo 'hi'", None)\<close> renders
  \<open>```echo 'hi'```\<close> and \<open>code_block("x=1", "python")\<close> renders \<open>```python\nx=1```\<close>.
\<close>

theorem code_block_text:
  "(l \<noteq> [] \<longrightarrow>
      code_block code (Some l) = section_block (lit ''```'' @ l @ [10] @ code @ lit ''```''))
   \<and> code_block code None = section_block (lit ''```'' @ code @ lit ''```'')
   \<and> code_block code (Some []) = section_block (lit ''```'' @ code @ lit ''```'')
   \<and> code_block (lit ''echo '' @ [0x27] @ lit ''hi'' @ [0x27]) None
       = section_block (lit ''```echo '' @ [0x27] @ lit ''hi'' @ [0x27] @ lit ''```'')
   \<and> code_block (lit ''x=1'') (Some (lit ''python''))
       = section_block (lit ''```python'' @ [10] @ lit ''x=1```'')"
  by (simp add: code_block_def section_block_def section_typed_def lit_def)

theorem code_block_text_witness:
  "code_block (lit ''print(1)'') (Some (lit ''py''))
     = section_block (lit ''```py'' @ [10] @ lit ''print(1)```'')"
  using code_block_text [of "lit ''py''" "lit ''print(1)''"]
  by (simp add: lit_def)

text \<open>
  C3 as stated fails at the language string that is empty: the text has no newline after
  the opening fence, where the claim's form for a given language has one.
\<close>

theorem code_block_empty_language_counterexample:
  "code_block (lit ''x'') (Some [])
     \<noteq> section_block (lit ''```'' @ [] @ [10] @ lit ''x'' @ lit ''```'')"
  by (simp add: code_block_def section_block_def section_typed_def lit_def)

text \<open>
  C4, at the items \<open>a, b\<close>. The items are split on the comma and trimmed, and the fallback
  text joins them after the title, as the claim says (\<open>list_message_closed\<close> has it for
  every input, \<open>list_message_newline_example\<close> the split of the claim's example). The text
  of the items section, though, starts each line with the three code points U+00E2 U+20AC
  U+00A2 that \<open>server.py\<close> has in place of the bullet U+2022, so it is not the bullet
  followed by the item.
\<close>

theorem list_message_marker_evaluation:
  "send_list_message (lit ''C1'') (lit ''T'') (lit ''a, b'') None None
     = Inr \<lparr>msg_channel = lit ''C1'', msg_text = lit ''T: a, b'', msg_thread_ts = None,
            msg_blocks = [header (lit ''T''),
                          section_block ([0xE2, 0x20AC, 0xA2] @ lit '' a'' @ [10]
                                         @ [0xE2, 0x20AC, 0xA2] @ lit '' b'')]\<rparr>
   \<and> section_block ([0xE2, 0x20AC, 0xA2] @ lit '' a'' @ [10] @ [0xE2, 0x20AC, 0xA2] @ lit '' b'')
       \<noteq> section_block ([0x2022] @ lit '' a'' @ [10] @ [0x2022] @ lit '' b'')"
  by (simp add: list_message_closed Let_def list_marker_def lit_def strip_def isspace_def
        section_block_def section_typed_def)

text \<open>
  C5. For every status, \<open>send_notification_message\<close> succeeds; the status is lowercased and
  resolved against the table of success, warning, error and info, and a status outside the
  table resolves to the entry of info, so that the status \<open>unknown\<close> gives the message that
  \<open>info\<close> gives. Without details the blocks are exactly one section block, whose mrkdwn text
  is the emoji, a space, the title between asterisks, a newline and the description.
\<close>

theorem notification_status:
  "(\<exists>m. send_notification_message channel status title description details thread_ts = Inr m)
   \<and> (\<not> present details \<longrightarrow>
        blocks_of (send_notification_message channel status title description details thread_ts)
          = Some [section_block (status_emoji status @ lit '' *'' @ title @ lit ''*'' @ [10]
                                 @ description)])
   \<and> (lower status \<notin> {lit ''success'', lit ''warning'', lit ''error'', lit ''info''} \<longrightarrow>
        status_emoji status = emoji_info)
   \<and> send_notification_message channel (lit ''unknown'') title description details thread_ts
       = send_notification_message channel (lit ''info'') title description details thread_ts"
  by (auto simp add: notification_closed supplied_Nil_iff status_emoji_def
        lower_lit_unknown lower_lit_info)

theorem notification_status_witness:
  "blocks_of (send_notification_message (lit ''C1'') (lit ''Unknown'') (lit ''T'') (lit ''D'')
                None None)
     = Some [section_block (emoji_info @ lit '' *T*'' @ [10] @ lit ''D'')]"
  using notification_status [of "lit ''C1''" "lit ''Unknown''" "lit ''T''" "lit ''D''" None None]
  by (simp add: status_emoji_def lower_def lower_cp_def lit_def)

text \<open>
  C6. A button holds the key \<open>value\<close> exactly when the value argument is non-empty, the key
  \<open>url\<close> exactly when the url argument is non-empty, and the key \<open>style\<close> exactly when the
  style is \<open>primary\<close> or \<open>danger\<close>; a key that is held holds the argument. Any other style,
  such as \<open>loud\<close>, is dropped. An image holds the key \<open>title\<close> exactly when a non-empty title
  is given, so an image without a title has no such key.
\<close>

theorem optional_keys:
  "lookup (button text action_id val url style) (lit ''value'')
     = (if truthy val then Some val else None)
   \<and> lookup (button text action_id val url style) (lit ''url'')
       = (if truthy url then Some url else None)
   \<and> lookup (button text action_id val url style) (lit ''style'')
       = (if style = PStr (lit ''primary'') \<or> style = PStr (lit ''danger'')
          then Some style else None)
   \<and> lookup (button text action_id val url (PStr (lit ''loud''))) (lit ''style'') = None
   \<and> lookup (image image_url alt_text title) (lit ''title'')
       = (if present title
          then map_option (\<lambda>t. PDict [(lit ''type'', PStr (lit ''plain_text'')),
                                       (lit ''text'', PStr t)]) title
          else None)"
  by (cases title) (simp_all add: button_def image_def Let_def)

theorem optional_keys_witness:
  "lookup (button (PStr (lit ''Go'')) (PStr (lit ''a1'')) PNone (PStr []) (PStr (lit ''loud'')))
       (lit ''value'') = None
   \<and> lookup (button (PStr (lit ''Go'')) (PStr (lit ''a1'')) PNone (PStr []) (PStr (lit ''loud'')))
       (lit ''url'') = None
   \<and> lookup (button (PStr (lit ''Go'')) (PStr (lit ''a1'')) PNone (PStr []) (PStr (lit ''loud'')))
       (lit ''style'') = None
   \<and> lookup (image (lit ''http://x/y.png'') (lit ''alt'') None) (lit ''title'') = None"
  using optional_keys [of "PStr (lit ''Go'')" "PStr (lit ''a1'')" PNone "PStr []"
          "PStr (lit ''loud'')" "lit ''http://x/y.png''" "lit ''alt''" None]
  by simp

text \<open>
  C7. When the buttons argument is not valid JSON, \<open>send_interactive_message\<close> returns the
  error of the decoder, with its message, and hands over no message: the header and the
  section built before the decoding are not sent.
\<close>

theorem interactive_invalid_json:
  "json_loads buttons = Inl msg \<Longrightarrow>
     send_interactive_message json_loads channel title description buttons thread_ts
       = Inl (Caught (JSONDecodeError msg))
     \<and> blocks_of (send_interactive_message json_loads channel title description buttons thread_ts)
         = None"
  by (simp add: send_interactive_message_def Let_def)

theorem interactive_invalid_json_witness:
  "send_interactive_message sample_loads (lit ''C1'') (lit ''T'') (lit ''D'') (lit ''not json'') None
     = Inl (Caught (JSONDecodeError (lit ''Expecting value: line 1 column 1 (char 0)'')))"
proof -
  have "sample_loads (lit ''not json'') = Inl (lit ''Expecting value: line 1 column 1 (char 0)'')"
    by (simp add: sample_loads_def)
  then show ?thesis
    using interactive_invalid_json [of sample_loads "lit ''not json''"
            "lit ''Expecting value: line 1 column 1 (char 0)''" "lit ''C1''" "lit ''T''" "lit ''D''" None]
    by simp
qed

text \<open>
  C8, at the title \<open>T\<close> and the message \<open>M\<close> with no author and no timestamp. The blocks are
  a header, the section of the message and one context block with the date line, as the
  claim says (\<open>announcement_closed\<close> has it for every input). The header text, though,
  starts with the four code points U+00F0 U+0178 U+201C U+00A2 that \<open>server.py\<close> has in
  place of the megaphone U+1F4E2, so it is not the megaphone, a space and the title.
\<close>

theorem announcement_mark_evaluation:
  "send_announcement (lit ''2026-01-01 10:00'') (lit ''C1'') (lit ''T'') (lit ''M'') None None None
     = Inr \<lparr>msg_channel = lit ''C1'',
            msg_text = [0xF0, 0x178, 0x201C, 0xA2] @ lit '' T: M'', msg_thread_ts = None,
            msg_blocks = [header ([0xF0, 0x178, 0x201C, 0xA2] @ lit '' T''),
                          section_block (lit ''M''),
                          context_block [lit ''*Date:* 2026-01-01 10:00'']]\<rparr>
   \<and> header ([0xF0, 0x178, 0x201C, 0xA2] @ lit '' T'') \<noteq> header ([0x1F4E2] @ lit '' T'')"
  by (simp add: announcement_closed announcement_mark_def lit_def header_def)

text \<open>
  C9. \<open>send_formatted_message\<close> keeps the empty pieces of the fields: splitting on comma, it
  only trims each piece, so the fields section has one mrkdwn entry for every piece, as
  many as there are commas plus one, and the entry of an empty piece has the empty text,
  as for \<open>a,,b\<close> and for a trailing comma.
\<close>

theorem formatted_fields_keep_empty:
  "(f \<noteq> [] \<longrightarrow>
      blocks_of (send_formatted_message channel title text (Some f) context thread_ts)
        = Some (map header (supplied title) @ map section_block (supplied text)
                @ [PDict [(lit ''type'', PStr (lit ''section'')),
                          (lit ''fields'', PList (map (\<lambda>p. mrkdwn (strip p)) (split 0x2C f)))]]
                @ map (\<lambda>c. context_block [c]) (supplied context)))
   \<and> length (map (\<lambda>p. mrkdwn (strip p)) (split 0x2C f)) = count_list f 0x2C + 1
   \<and> blocks_of (send_formatted_message channel None None (Some (lit ''a,,b'')) None thread_ts)
       = Some [PDict [(lit ''type'', PStr (lit ''section'')),
                      (lit ''fields'', PList [mrkdwn (lit ''a''), mrkdwn [], mrkdwn (lit ''b'')])]]
   \<and> blocks_of (send_formatted_message channel None None (Some (lit ''a,'')) None thread_ts)
       = Some [PDict [(lit ''type'', PStr (lit ''section'')),
                      (lit ''fields'', PList [mrkdwn (lit ''a''), mrkdwn []])]]"
proof (intro conjI)
  show "f \<noteq> [] \<longrightarrow>
      blocks_of (send_formatted_message channel title text (Some f) context thread_ts)
        = Some (map header (supplied title) @ map section_block (supplied text)
                @ [PDict [(lit ''type'', PStr (lit ''section'')),
                          (lit ''fields'', PList (map (\<lambda>p. mrkdwn (strip p)) (split 0x2C f)))]]
                @ map (\<lambda>c. context_block [c]) (supplied context))"
    by (simp add: formatted_message_closed Let_def fields_section_def comp_def)
  show "length (map (\<lambda>p. mrkdwn (strip p)) (split 0x2C f)) = count_list f 0x2C + 1"
    by (simp add: length_split)
  show "blocks_of (send_formatted_message channel None None (Some (lit ''a,,b'')) None thread_ts)
       = Some [PDict [(lit ''type'', PStr (lit ''section'')),
                      (lit ''fields'', PList [mrkdwn (lit ''a''), mrkdwn [], mrkdwn (lit ''b'')])]]"
    by (simp add: formatted_message_closed Let_def fields_section_def lit_def strip_def isspace_def)
  show "blocks_of (send_formatted_message channel None None (Some (lit ''a,'')) None thread_ts)
       = Some [PDict [(lit ''type'', PStr (lit ''section'')),
                      (lit ''fields'', PList [mrkdwn (lit ''a''), mrkdwn []])]]"
    by (simp add: formatted_message_closed Let_def fields_section_def lit_def strip_def isspace_def)
qed

theorem formatted_fields_keep_empty_witness:
  "blocks_of (send_formatted_message (lit ''C1'') (Some (lit ''T'')) None (Some (lit '' x , ,y,''))
                None None)
     = Some [header (lit ''T''),
             PDict [(lit ''type'', PStr (lit ''section'')),
                    (lit ''fields'', PList [mrkdwn (lit ''x''), mrkdwn [], mrkdwn (lit ''y''),
                                            mrkdwn []])]]
   \<and> count_list (lit '' x , ,y,'') 0x2C + 1 = 4"
  using formatted_fields_keep_empty [of "lit '' x , ,y,''" "lit ''C1''" "Some (lit ''T'')" None
          None None]
  by (simp add: lit_def strip_def isspace_def)

text \<open>
  C10. \<open>send_list_message\<close> succeeds for every items string. When every piece is empty after
  trimming, as when the items are only whitespace or only commas, the message has the
  header, the description and divider if a description is given, and an items section with
  the empty text; its fallback text is the title followed by a colon and a space.
\<close>

theorem list_message_no_items:
  "(\<exists>m. send_list_message channel title items description thread_ts = Inr m)
   \<and> ((\<forall>p \<in> set (split (if 10 \<in> set items then 10 else 0x2C) items). strip p = [])
         \<or> (\<forall>c \<in> set items. isspace c)
         \<or> (\<forall>c \<in> set items. c = 0x2C) \<longrightarrow>
       send_list_message channel title items description thread_ts =
         Inr \<lparr>msg_channel = channel, msg_text = title @ lit '': '', msg_thread_ts = thread_ts,
              msg_blocks = header title
                           # concat (map (\<lambda>d. [section_block d, divider]) (supplied description))
                           @ [section_block []]\<rparr>)"
proof -
  let ?sep = "if 10 \<in> set items then 10 else (0x2C::nat)"
  have empty: "send_list_message channel title items description thread_ts =
         Inr \<lparr>msg_channel = channel, msg_text = title @ lit '': '', msg_thread_ts = thread_ts,
              msg_blocks = header title
                           # concat (map (\<lambda>d. [section_block d, divider]) (supplied description))
                           @ [section_block []]\<rparr>"
    if "\<forall>p \<in> set (split ?sep items). strip p = []"
  proof -
    from that have "filter (\<lambda>p. strip p \<noteq> []) (split ?sep items) = []"
      by (simp add: filter_empty_conv)
    then show ?thesis
      by (simp add: list_message_closed Let_def)
  qed
  have space: "\<forall>p \<in> set (split ?sep items). strip p = []" if "\<forall>c \<in> set items. isspace c"
  proof
    fix p assume "p \<in> set (split ?sep items)"
    then have "set p \<subseteq> set items" using split_pieces_subset by blast
    with that show "strip p = []" by (intro strip_all_space) blast
  qed
  have comma: "\<forall>p \<in> set (split ?sep items). strip p = []" if "\<forall>c \<in> set items. c = 0x2C"
  proof
    fix p assume p: "p \<in> set (split ?sep items)"
    from that have "10 \<notin> set items" by auto
    with p have "set p \<subseteq> set items - {0x2C}"
      using split_pieces_subset [of p "0x2C" items] by simp
    with that have "p = []" by (cases p) auto
    then show "strip p = []" by (simp add: strip_def)
  qed
  show ?thesis
    using empty space comma by (auto simp add: list_message_closed Let_def)
qed

theorem list_message_no_items_witness:
  "send_list_message (lit ''C1'') (lit ''T'') (lit '',,,'') None None =
     Inr \<lparr>msg_channel = lit ''C1'', msg_text = lit ''T: '', msg_thread_ts = None,
          msg_blocks = [header (lit ''T''), section_block []]\<rparr>
   \<and> send_list_message (lit ''C1'') (lit ''T'') (lit ''  '' @ [10] @ lit ''  '')
       (Some (lit ''D'')) None =
     Inr \<lparr>msg_channel = lit ''C1'', msg_text = lit ''T: '', msg_thread_ts = None,
          msg_blocks = [header (lit ''T''), section_block (lit ''D''), divider,
                        section_block []]\<rparr>"
  using list_message_no_items [of "lit ''C1''" "lit ''T''" "lit '',,,''" None None]
        list_message_no_items [of "lit ''C1''" "lit ''T''" "lit ''  '' @ [10] @ lit ''  ''"
          "Some (lit ''D'')" None]
  by (simp add: lit_def strip_def isspace_def)

end
